theory Spec2Isabelle
  imports Main "HOL-Library.Multiset"
begin

section \<open>Values shared by the client access layer\<close>

text \<open>
  A JavaScript error object as \<^verbatim>\<open>src/config/firebase.js\<close> reads it: an optional
  \<^verbatim>\<open>code\<close> (set by the Firebase SDK, absent on \<^verbatim>\<open>new Error(msg)\<close>) and a
  \<^verbatim>\<open>message\<close>. An empty message is falsy, so \<^verbatim>\<open>error.message || fallback\<close> takes
  the fallback exactly when the message is empty.
\<close>

record error =
  code :: "string option"
  message :: string

definition new_Error :: "string \<Rightarrow> error" where
  "new_Error m = \<lparr>code = None, message = m\<rparr>"

text \<open>A settled promise: \<open>Inl\<close> is a rejection (or a throw), \<open>Inr\<close> the resolved value.\<close>

type_synonym 'a promise = "error + 'a"

text \<open>\<^verbatim>\<open>catch (error) { throw new Error(error.message || fallback) }\<close>\<close>

definition rethrow :: "string \<Rightarrow> 'a promise \<Rightarrow> 'a promise" where
  "rethrow fallback r =
     (case r of
        Inl e \<Rightarrow> Inl (new_Error (if message e = [] then fallback else message e))
      | Inr v \<Rightarrow> Inr v)"

text \<open>The Firebase user object: only \<^verbatim>\<open>uid\<close> and \<^verbatim>\<open>email\<close> are read by the code.\<close>

record user =
  uid :: string
  email :: string

text \<open>
  The data of a document of the \<^verbatim>\<open>users\<close> collection. \<^verbatim>\<open>signUp\<close> writes all four
  fields; the readers test \<^verbatim>\<open>name\<close> and \<^verbatim>\<open>role\<close> for truthiness, so these two may be
  absent (\<open>None\<close>) in a document read back.
\<close>

record user_data =
  d_email :: string
  d_name :: "string option"
  d_role :: "string option"
  d_createdAt :: nat

text \<open>\<^verbatim>\<open>!x\<close> for a field that is a string when present: absent or empty.\<close>

definition falsy :: "string option \<Rightarrow> bool" where
  "falsy x = (case x of None \<Rightarrow> True | Some v \<Rightarrow> v = [])"

text \<open>
  The data of a document of the \<^verbatim>\<open>tickets\<close> collection, with the fields
  \<^verbatim>\<open>createTicket\<close> writes and the \<^verbatim>\<open>updatedAt\<close> that \<^verbatim>\<open>updateTicketStatus\<close> adds.
\<close>

record ticket_data =
  title :: string
  description :: string
  ticketType :: string
  status :: string
  clientId :: string
  clientName :: string
  clientEmail :: string
  createdAt :: nat
  updatedAt :: "nat option"

text \<open>The remote calls the layer issues, in the order issued (a trace kept beside the state).\<close>

datatype call =
    CreateUserWithEmailAndPassword string
  | SignInWithEmailAndPassword string
  | FirebaseSignOut
  | GetDoc string string
  | SetDoc string string
  | AddDoc string
  | UpdateDoc string string
  | SetTimeout nat

text \<open>
  The backend as the layer sees it: \<^verbatim>\<open>authInstance.currentUser\<close>, the identities the
  authentication service holds, the two collections, and the trace of remote calls.
\<close>

record backend =
  currentUser :: "user option"
  accounts :: "user list"
  users :: "string \<rightharpoonup> user_data"
  tickets :: "(string \<times> ticket_data) list"
  calls :: "call list"

definition issue :: "call \<Rightarrow> backend \<Rightarrow> backend" where
  "issue c s = s\<lparr>calls := calls s @ [c]\<rparr>"

section \<open>signUp\<close>

text \<open>
  \<^verbatim>\<open>signUp(email, password, name, role)\<close>, lines 41-78. The answers of the three remote
  calls are arguments: \<open>created\<close> for \<^verbatim>\<open>createUserWithEmailAndPassword\<close>, \<open>written\<close> for
  \<^verbatim>\<open>setDoc\<close> (the server timestamp on success) and \<open>verified\<close> for the \<^verbatim>\<open>getDoc\<close> that
  follows (\<open>None\<close> when \<^verbatim>\<open>exists()\<close> is false). A created account is held by the service
  and becomes the current user; a resolved \<^verbatim>\<open>setDoc\<close> stores the document.
\<close>

definition signUp_try ::
  "backend \<Rightarrow> string \<Rightarrow> string \<Rightarrow> string \<Rightarrow> string \<Rightarrow>
   user promise \<Rightarrow> nat promise \<Rightarrow> user_data option promise \<Rightarrow> user promise \<times> backend" where
  "signUp_try s email' password name role created written verified =
     (if email' = [] \<or> password = [] \<or> name = [] \<or> role = [] then
        (Inl (new_Error ''All fields are required''), s)
      else if length password < 6 then
        (Inl (new_Error ''Password must be at least 6 characters''), s)
      else if role \<notin> set [''client'', ''admin''] then
        (Inl (new_Error ''Role must be either \"client\" or \"admin\"''), s)
      else
        let s1 = issue (CreateUserWithEmailAndPassword email') s in
        case created of
          Inl e \<Rightarrow> (Inl e, s1)
        | Inr u \<Rightarrow>
            let s2 = issue (SetDoc ''users'' (uid u))
                       (s1\<lparr>accounts := accounts s1 @ [u], currentUser := Some u\<rparr>) in
            (case written of
               Inl e \<Rightarrow> (Inl e, s2)
             | Inr ts \<Rightarrow>
                 let s3 = issue (GetDoc ''users'' (uid u))
                            (s2\<lparr>users := (users s2)(uid u \<mapsto>
                                \<lparr>d_email = email', d_name = Some name, d_role = Some role,
                                 d_createdAt = ts\<rparr>)\<rparr>) in
                 (case verified of
                    Inl e \<Rightarrow> (Inl e, s3)
                  | Inr None \<Rightarrow> (Inl (new_Error ''Failed to create user profile''), s3)
                  | Inr (Some d) \<Rightarrow> (Inr u, s3))))"

definition signUp ::
  "backend \<Rightarrow> string \<Rightarrow> string \<Rightarrow> string \<Rightarrow> string \<Rightarrow>
   user promise \<Rightarrow> nat promise \<Rightarrow> user_data option promise \<Rightarrow> user promise \<times> backend" where
  "signUp s email' password name role created written verified =
     (let (r, s') = signUp_try s email' password name role created written verified
      in (rethrow ''Failed to create account'' r, s'))"

text \<open>The three messages of the local validation of \<^verbatim>\<open>signUp\<close> (the spec's ValidationError).\<close>

definition signUp_validation_messages :: "string list" where
  "signUp_validation_messages =
     [''All fields are required'', ''Password must be at least 6 characters'',
      ''Role must be either \"client\" or \"admin\"'']"

text \<open>The message of the spec's ProfileCreationError: the verification found no document.\<close>

definition profile_creation_message :: string where
  "profile_creation_message = ''Failed to create user profile''"

section \<open>signIn and signOut\<close>

text \<open>
  The \<^verbatim>\<open>catch\<close> block of \<^verbatim>\<open>signIn\<close>, lines 95-105: three error codes get a message of
  their own, anything else keeps its message (or the fallback when it has none).
\<close>

definition signIn_catch :: "error \<Rightarrow> error" where
  "signIn_catch e =
     (if code e = Some ''auth/user-not-found'' then new_Error ''No account found with this email''
      else if code e = Some ''auth/wrong-password'' then new_Error ''Incorrect password''
      else if code e = Some ''auth/invalid-email'' then new_Error ''Invalid email address''
      else new_Error (if message e = [] then ''Failed to sign in'' else message e))"

text \<open>
  \<^verbatim>\<open>signIn(email, password)\<close>, lines 87-106; \<open>answered\<close> is what
  \<^verbatim>\<open>signInWithEmailAndPassword\<close> settles with. The local throw of line 90 is inside the
  \<^verbatim>\<open>try\<close>, so it passes through the same \<^verbatim>\<open>catch\<close>.
\<close>

definition signIn_try ::
  "backend \<Rightarrow> string \<Rightarrow> string \<Rightarrow> user promise \<Rightarrow> user promise \<times> backend" where
  "signIn_try s email' password answered =
     (if email' = [] \<or> password = [] then
        (Inl (new_Error ''Email and password are required''), s)
      else
        let s1 = issue (SignInWithEmailAndPassword email') s in
        case answered of
          Inl e \<Rightarrow> (Inl e, s1)
        | Inr u \<Rightarrow> (Inr u, s1\<lparr>currentUser := Some u\<rparr>))"

definition signIn ::
  "backend \<Rightarrow> string \<Rightarrow> string \<Rightarrow> user promise \<Rightarrow> user promise \<times> backend" where
  "signIn s email' password answered =
     (let (r, s') = signIn_try s email' password answered
      in (case r of Inl e \<Rightarrow> (Inl (signIn_catch e), s') | Inr u \<Rightarrow> (Inr u, s')))"

text \<open>
  \<^verbatim>\<open>signOut()\<close>, lines 113-119: whatever \<^verbatim>\<open>firebaseSignOut\<close> rejects with becomes
  \<^verbatim>\<open>new Error('Failed to sign out')\<close>; a resolved sign-out clears the current user.
\<close>

definition signOut :: "backend \<Rightarrow> unit promise \<Rightarrow> unit promise \<times> backend" where
  "signOut s answered =
     (let s1 = issue FirebaseSignOut s in
      case answered of
        Inl e \<Rightarrow> (Inl (new_Error ''Failed to sign out''), s1)
      | Inr u \<Rightarrow> (Inr (), s1\<lparr>currentUser := None\<rparr>))"

section \<open>getUserRole\<close>

text \<open>
  \<^verbatim>\<open>getUserRole(userId, retries = 3)\<close>, lines 135-162. The answers of the successive
  \<^verbatim>\<open>getDoc\<close> calls are the stream \<open>reads\<close>: \<open>reads 0\<close> answers this call's read, and the
  retry continues with the rest of the stream. \<open>Inr None\<close> is a snapshot whose
  \<^verbatim>\<open>exists()\<close> is false. The wait of line 147 is the call \<open>SetTimeout 500\<close> of the trace.
  The retry returns the promise of the recursive call, whose error already went through
  the inner \<^verbatim>\<open>catch\<close>; the local throws keep their (non-empty) messages through the
  \<^verbatim>\<open>catch\<close> of line 159, and an error of \<^verbatim>\<open>getDoc\<close> is rewrapped there.
\<close>

function getUserRole ::
  "backend \<Rightarrow> string \<Rightarrow> int \<Rightarrow> (nat \<Rightarrow> user_data option promise) \<Rightarrow> string promise \<times> backend" where
  "getUserRole s userId retries reads =
     (if userId = [] then
        (rethrow ''Failed to get user role'' (Inl (new_Error ''User ID is required'')), s)
      else
        let s1 = issue (GetDoc ''users'' userId) s in
        case reads 0 of
          Inl e \<Rightarrow> (rethrow ''Failed to get user role'' (Inl e), s1)
        | Inr None \<Rightarrow>
            if retries > 0 then
              getUserRole (issue (SetTimeout 500) s1) userId (retries - 1) (\<lambda>i. reads (Suc i))
            else
              (rethrow ''Failed to get user role'' (Inl (new_Error ''User profile not found'')), s1)
        | Inr (Some userData) \<Rightarrow>
            if falsy (d_role userData) then
              (rethrow ''Failed to get user role'' (Inl (new_Error ''User role not found'')), s1)
            else
              (Inr (the (d_role userData)), s1))"
  by pat_completeness auto
termination
  by (relation "measure (\<lambda>(s, userId, retries, reads). nat retries)") auto

declare getUserRole.simps [simp del]

text \<open>The number of \<^verbatim>\<open>getDoc\<close> reads and the total wait (in ms) recorded in a trace.\<close>

fun reads_in :: "call list \<Rightarrow> nat" where
  "reads_in [] = 0"
| "reads_in (GetDoc c d # cs) = Suc (reads_in cs)"
| "reads_in (c # cs) = reads_in cs"

fun waited_in :: "call list \<Rightarrow> nat" where
  "waited_in [] = 0"
| "waited_in (SetTimeout ms # cs) = ms + waited_in cs"
| "waited_in (c # cs) = waited_in cs"

text \<open>The calls a run added to the trace.\<close>

definition added_calls :: "backend \<Rightarrow> backend \<Rightarrow> call list" where
  "added_calls s s' = drop (length (calls s)) (calls s')"

section \<open>createTicket and the form that calls it\<close>

text \<open>
  \<^verbatim>\<open>String.prototype.trim\<close> on strings of code units below 256: the white space and line
  terminators of ECMAScript in that range are TAB, LF, VT, FF, CR, SP and NBSP.
\<close>

definition isWhiteSpace :: "char \<Rightarrow> bool" where
  "isWhiteSpace c = (of_char c \<in> set [9, 10, 11, 12, 13, 32, 160 :: nat])"

definition trim :: "string \<Rightarrow> string" where
  "trim str = rev (dropWhile isWhiteSpace (rev (dropWhile isWhiteSpace str)))"

text \<open>
  Lines 188-202: the display name is the profile's \<^verbatim>\<open>name\<close> when the read finds a
  document with a truthy name, and the caller's email in every other case (no document,
  no name, or a read that throws, which the inner \<^verbatim>\<open>catch\<close> only logs).
\<close>

definition lookupClientName :: "user \<Rightarrow> user_data option promise \<Rightarrow> string" where
  "lookupClientName cu fetched =
     (case fetched of
        Inr (Some userData) \<Rightarrow>
          (if falsy (d_name userData) then email cu else the (d_name userData))
      | Inr None \<Rightarrow> email cu
      | Inl err \<Rightarrow> email cu)"

text \<open>
  \<^verbatim>\<open>createTicket(title, description, type)\<close>, lines 172-222. \<open>fetched\<close> answers the read of
  the caller's profile, \<open>added\<close> answers \<^verbatim>\<open>collection('tickets').add\<close> with the new
  document's id and the server timestamp.
\<close>

definition createTicket_try ::
  "backend \<Rightarrow> string \<Rightarrow> string \<Rightarrow> string \<Rightarrow>
   user_data option promise \<Rightarrow> (string \<times> nat) promise \<Rightarrow> string promise \<times> backend" where
  "createTicket_try s title' description' type' fetched added =
     (case currentUser s of
        None \<Rightarrow> (Inl (new_Error ''You must be logged in to create a ticket''), s)
      | Some cu \<Rightarrow>
          if title' = [] \<or> description' = [] \<or> type' = [] then
            (Inl (new_Error ''All fields are required''), s)
          else if type' \<notin> set [''bug'', ''feature''] then
            (Inl (new_Error ''Type must be either \"bug\" or \"feature\"''), s)
          else
            let s1 = issue (GetDoc ''users'' (uid cu)) s;
                clientName' = lookupClientName cu fetched;
                s2 = issue (AddDoc ''tickets'') s1
            in (case added of
                  Inl e \<Rightarrow> (Inl e, s2)
                | Inr (docId, ts) \<Rightarrow>
                    (Inr docId,
                     s2\<lparr>tickets := tickets s2 @
                       [(docId,
                         \<lparr>title = trim title', description = trim description',
                          ticketType = type', status = ''open'', clientId = uid cu,
                          clientName = clientName', clientEmail = email cu,
                          createdAt = ts, updatedAt = None\<rparr>)]\<rparr>)))"

definition createTicket ::
  "backend \<Rightarrow> string \<Rightarrow> string \<Rightarrow> string \<Rightarrow>
   user_data option promise \<Rightarrow> (string \<times> nat) promise \<Rightarrow> string promise \<times> backend" where
  "createTicket s title' description' type' fetched added =
     (let (r, s') = createTicket_try s title' description' type' fetched added
      in (rethrow ''Failed to create ticket'' r, s'))"

text \<open>The messages of the local validation of \<^verbatim>\<open>createTicket\<close>.\<close>

definition createTicket_validation_messages :: "string list" where
  "createTicket_validation_messages =
     [''All fields are required'', ''Type must be either \"bug\" or \"feature\"'']"

text \<open>
  \<^verbatim>\<open>handleSubmit\<close> of \<^verbatim>\<open>CreateTicketScreen\<close>, lines 41-68, on the form's \<^verbatim>\<open>title\<close>,
  \<^verbatim>\<open>description\<close> and \<^verbatim>\<open>type\<close>: the alert it shows (title and text) and the backend after.
\<close>

definition handleSubmit ::
  "backend \<Rightarrow> string \<Rightarrow> string \<Rightarrow> string \<Rightarrow>
   user_data option promise \<Rightarrow> (string \<times> nat) promise \<Rightarrow> (string \<times> string) \<times> backend" where
  "handleSubmit s title' description' type' fetched added =
     (if trim title' = [] \<or> trim description' = [] then
        ((''Error'', ''Please fill in all fields''), s)
      else
        let (r, s') = createTicket s (trim title') (trim description') type' fetched added
        in case r of
             Inr docId \<Rightarrow> ((''Success'', ''Ticket created successfully!''), s')
           | Inl e \<Rightarrow> ((''Error'', message e), s'))"

section \<open>The ticket subscriptions\<close>

text \<open>
  The two queries of lines 243-247 and 275: both order by \<^verbatim>\<open>createdAt\<close> descending, and
  \<^verbatim>\<open>getMyTickets\<close> adds \<^verbatim>\<open>where('clientId', '==', uid)\<close>.
\<close>

datatype query = Query (whereClientId: "string option")

text \<open>
  The ticket store's side of a query, from the contract of the store (an equality
  filter on \<^verbatim>\<open>clientId\<close>, absent for the admin view; creation time descending): the
  matching documents, inserted one by one into a list kept in descending order of
  \<^verbatim>\<open>createdAt\<close>.
\<close>

fun insertDesc :: "(string \<times> ticket_data) \<Rightarrow> (string \<times> ticket_data) list \<Rightarrow> (string \<times> ticket_data) list" where
  "insertDesc x [] = [x]"
| "insertDesc x (y # ys) =
     (if createdAt (snd y) \<le> createdAt (snd x) then x # y # ys else y # insertDesc x ys)"

definition matches :: "query \<Rightarrow> (string \<times> ticket_data) \<Rightarrow> bool" where
  "matches q doc =
     (case whereClientId q of None \<Rightarrow> True | Some v \<Rightarrow> clientId (snd doc) = v)"

definition runQuery :: "query \<Rightarrow> (string \<times> ticket_data) list \<Rightarrow> (string \<times> ticket_data) list" where
  "runQuery q docs = foldr insertDesc (filter (matches q) docs) []"

text \<open>A delivered ticket: \<^verbatim>\<open>{ id: doc.id, ...doc.data() }\<close>.\<close>

record ticket = ticket_data +
  ticket_id :: string

definition toTicket :: "(string \<times> ticket_data) \<Rightarrow> ticket" where
  "toTicket doc =
     (let d = snd doc in
      \<lparr>title = title d, description = description d, ticketType = ticketType d,
       status = status d, clientId = clientId d, clientName = clientName d,
       clientEmail = clientEmail d, createdAt = createdAt d, updatedAt = updatedAt d,
       ticket_id = fst doc\<rparr>)"

text \<open>
  The first callback handed to \<^verbatim>\<open>onSnapshot\<close> (lines 251-257 and 279-285): the list
  given to \<^verbatim>\<open>callback\<close> for a snapshot of the query over the collection \<open>docs\<close>.
\<close>

definition onSnapshot_next :: "query \<Rightarrow> (string \<times> ticket_data) list \<Rightarrow> ticket list" where
  "onSnapshot_next q docs = map toTicket (runQuery q docs)"

text \<open>
  \<^verbatim>\<open>getMyTickets\<close>, lines 231-265: throws when nobody is signed in, else subscribes with the
  query built from the current user's uid. \<^verbatim>\<open>getAllTickets\<close>, lines 273-293, always
  subscribes, with no filter. The result is the subscription's query.
\<close>

definition getMyTickets :: "backend \<Rightarrow> query promise" where
  "getMyTickets s =
     (case currentUser s of
        None \<Rightarrow> Inl (new_Error ''You must be logged in to view tickets'')
      | Some cu \<Rightarrow> Inr (Query (Some (uid cu))))"

definition getAllTickets :: "backend \<Rightarrow> query promise" where
  "getAllTickets s = Inr (Query None)"

text \<open>Creation time descending, on delivered tickets.\<close>

definition newestFirst :: "ticket list \<Rightarrow> bool" where
  "newestFirst ts = sorted_wrt (\<lambda>a b. createdAt b \<le> createdAt a) ts"

section \<open>updateTicketStatus\<close>

text \<open>\<^verbatim>\<open>Array.prototype.join\<close> on strings.\<close>

fun join :: "string \<Rightarrow> string list \<Rightarrow> string" where
  "join sep [] = []"
| "join sep [x] = x"
| "join sep (x # y # ys) = x @ sep @ join sep (y # ys)"

definition validStatuses :: "string list" where
  "validStatuses = [''open'', ''in-progress'', ''resolved'', ''closed'']"

text \<open>The store's side of \<^verbatim>\<open>updateDoc(ticketRef, {status, updatedAt})\<close> once it resolves.\<close>

definition updateDoc :: "string \<Rightarrow> string \<Rightarrow> nat \<Rightarrow> (string \<times> ticket_data) list \<Rightarrow> (string \<times> ticket_data) list" where
  "updateDoc ticketId status' ts docs =
     map (\<lambda>(i, d). if i = ticketId then (i, d\<lparr>status := status', updatedAt := Some ts\<rparr>) else (i, d)) docs"

text \<open>
  \<^verbatim>\<open>updateTicketStatus(ticketId, status)\<close>, lines 302-321; \<open>updated\<close> answers
  \<^verbatim>\<open>updateDoc\<close> with the server timestamp.
\<close>

definition updateTicketStatus_try ::
  "backend \<Rightarrow> string \<Rightarrow> string \<Rightarrow> nat promise \<Rightarrow> unit promise \<times> backend" where
  "updateTicketStatus_try s ticketId status' updated =
     (if ticketId = [] then
        (Inl (new_Error ''Ticket ID is required''), s)
      else if status' \<notin> set validStatuses then
        (Inl (new_Error (''Status must be one of: '' @ join '', '' validStatuses)), s)
      else
        let s1 = issue (UpdateDoc ''tickets'' ticketId) s in
        case updated of
          Inl e \<Rightarrow> (Inl e, s1)
        | Inr ts \<Rightarrow> (Inr (), s1\<lparr>tickets := updateDoc ticketId status' ts (tickets s1)\<rparr>))"

definition updateTicketStatus ::
  "backend \<Rightarrow> string \<Rightarrow> string \<Rightarrow> nat promise \<Rightarrow> unit promise \<times> backend" where
  "updateTicketStatus s ticketId status' updated =
     (let (r, s') = updateTicketStatus_try s ticketId status' updated
      in (rethrow ''Failed to update ticket status'' r, s'))"

text \<open>The message of the spec's InvalidStatus, which names the allowed set.\<close>

definition invalid_status_message :: string where
  "invalid_status_message = ''Status must be one of: open, in-progress, resolved, closed''"

section \<open>AppNavigator\<close>

text \<open>The four pieces of React state of \<^verbatim>\<open>AppNavigator\<close>, lines 78-81.\<close>

record navigator =
  nav_user :: "user option"
  userRole :: "string option"
  nav_error :: "string option"
  loading :: bool

definition initialNavigator :: navigator where
  "initialNavigator = \<lparr>nav_user = None, userRole = None, nav_error = None, loading = True\<rparr>"

text \<open>
  The callback given to \<^verbatim>\<open>onAuthStateChanged\<close>, lines 84-109, run to completion on one
  notification \<open>authUser\<close>. \<open>reads\<close> answers the reads of \<^verbatim>\<open>getUserRole\<close> (called with its
  default of 3 retries), \<open>signedOut\<close> answers \<^verbatim>\<open>firebaseSignOut\<close>. When \<^verbatim>\<open>signOut()\<close>
  throws inside the \<^verbatim>\<open>catch\<close> block, the two setters after it are not reached; the
  \<^verbatim>\<open>finally\<close> block runs on every path.
\<close>

definition authStateChanged ::
  "backend \<times> navigator \<Rightarrow> user option \<Rightarrow> (nat \<Rightarrow> user_data option promise) \<Rightarrow> unit promise \<Rightarrow>
   backend \<times> navigator" where
  "authStateChanged st authUser reads signedOut =
     (let (s, n) = st in
      case authUser of
        Some au \<Rightarrow>
          (case getUserRole s (uid au) 3 reads of
             (Inr role, s1) \<Rightarrow>
               (s1, n\<lparr>userRole := Some role, nav_user := Some au, nav_error := None,
                      loading := False\<rparr>)
           | (Inl err, s1) \<Rightarrow>
               (let n1 = n\<lparr>nav_error := Some (message err)\<rparr> in
                case signOut s1 signedOut of
                  (Inr u, s2) \<Rightarrow> (s2, n1\<lparr>nav_user := None, userRole := None, loading := False\<rparr>)
                | (Inl e, s2) \<Rightarrow> (s2, n1\<lparr>loading := False\<rparr>)))
      | None \<Rightarrow>
          (s, n\<lparr>nav_user := None, userRole := None, nav_error := None, loading := False\<rparr>))"

text \<open>What \<^verbatim>\<open>AppNavigator\<close> renders, lines 114-136.\<close>

datatype rendered =
    Nothing
  | AuthScreens
  | ClientApp
  | DeveloperApp
  | EmptyNavigator

definition render :: "navigator \<Rightarrow> rendered" where
  "render n =
     (if loading n then Nothing
      else if nav_user n = None then AuthScreens
      else if userRole n = Some ''client'' then ClientApp
      else if userRole n = Some ''admin'' then DeveloperApp
      else EmptyNavigator)"

text \<open>
  A notification of the session store: the session becomes \<open>authUser\<close>, then the callback
  runs. A run of the navigator is a list of notifications with the answers of the
  remote calls each one meets.
\<close>

type_synonym notification = "user option \<times> (nat \<Rightarrow> user_data option promise) \<times> unit promise"

definition notify :: "backend \<times> navigator \<Rightarrow> notification \<Rightarrow> backend \<times> navigator" where
  "notify st ev =
     (let (authUser, reads, signedOut) = ev
      in authStateChanged ((fst st)\<lparr>currentUser := authUser\<rparr>, snd st) authUser reads signedOut)"

definition run :: "backend \<times> navigator \<Rightarrow> notification list \<Rightarrow> backend \<times> navigator" where
  "run st evs = foldl notify st evs"

section \<open>Vocabulary of the statements\<close>

text \<open>
  The trace of a \<^verbatim>\<open>getUserRole\<close> that read \<open>k\<close> times without finding the document and
  then once more: a read, and after each of the first \<open>k\<close> a wait of 500 ms.
\<close>

fun retry_trace :: "string \<Rightarrow> nat \<Rightarrow> call list" where
  "retry_trace userId 0 = [GetDoc ''users'' userId]"
| "retry_trace userId (Suc k) = GetDoc ''users'' userId # SetTimeout 500 # retry_trace userId k"

text \<open>What \<^verbatim>\<open>getUserRole\<close> settles with on the read after which it stops.\<close>

definition settle :: "user_data option promise \<Rightarrow> string promise" where
  "settle r =
     (case r of
        Inl e \<Rightarrow> Inl (new_Error (if message e = [] then ''Failed to get user role'' else message e))
      | Inr None \<Rightarrow> Inl (new_Error ''User profile not found'')
      | Inr (Some userData) \<Rightarrow>
          (if falsy (d_role userData) then Inl (new_Error ''User role not found'')
           else Inr (the (d_role userData))))"

text \<open>Sample data for the concrete runs.\<close>

definition emptyBackend :: backend where
  "emptyBackend = \<lparr>currentUser = None, accounts = [], users = Map.empty, tickets = [], calls = []\<rparr>"

definition alice :: user where
  "alice = \<lparr>uid = ''u-alice'', email = ''alice@example.com''\<rparr>"

definition bob :: user where
  "bob = \<lparr>uid = ''u-bob'', email = ''bob@example.com''\<rparr>"

definition aliceSession :: backend where
  "aliceSession = emptyBackend\<lparr>currentUser := Some alice, accounts := [alice]\<rparr>"

definition profile :: "string \<Rightarrow> string \<Rightarrow> string option \<Rightarrow> user_data" where
  "profile mail nm rl = \<lparr>d_email = mail, d_name = Some nm, d_role = rl, d_createdAt = 1\<rparr>"

text \<open>An error as the Firebase SDK raises it, with a code.\<close>

definition serviceError :: "string \<Rightarrow> string \<Rightarrow> error" where
  "serviceError c m = \<lparr>code = Some c, message = m\<rparr>"

text \<open>Arguments that pass the three checks of \<^verbatim>\<open>signUp\<close>, lines 44-52.\<close>

definition validSignUp :: "string \<Rightarrow> string \<Rightarrow> string \<Rightarrow> string \<Rightarrow> bool" where
  "validSignUp email' password name role =
     (email' \<noteq> [] \<and> password \<noteq> [] \<and> name \<noteq> [] \<and> role \<noteq> [] \<and>
      6 \<le> length password \<and> role \<in> set [''client'', ''admin''])"

text \<open>Reads that find the document \<open>d\<close> from the \<open>k\<close>-th read on, and nothing before.\<close>

definition visibleFrom :: "nat \<Rightarrow> user_data \<Rightarrow> nat \<Rightarrow> user_data option promise" where
  "visibleFrom k d i = (if i < k then Inr None else Inr (Some d))"

definition sampleTicket :: "string \<Rightarrow> string \<Rightarrow> nat \<Rightarrow> ticket_data" where
  "sampleTicket ttl owner ts =
     \<lparr>title = ttl, description = ''details'', ticketType = ''bug'', status = ''open'',
      clientId = owner, clientName = owner, clientEmail = owner, createdAt = ts,
      updatedAt = None\<rparr>"

definition sampleDocs :: "(string \<times> ticket_data) list" where
  "sampleDocs =
     [(''t1'', sampleTicket ''first'' ''u-alice'' 1),
      (''t2'', sampleTicket ''second'' ''u-bob'' 2),
      (''t3'', sampleTicket ''third'' ''u-alice'' 3)]"

text \<open>
  Two notifications: alice signs in and her role resolves to \<^verbatim>\<open>client\<close>; then the session
  becomes bob, whose profile is never found, and \<^verbatim>\<open>firebaseSignOut\<close> is rejected.
\<close>

definition roleFailureRun :: "notification list" where
  "roleFailureRun =
     [(Some alice, visibleFrom 0 (profile ''alice@example.com'' ''Alice'' (Some ''client'')), Inr ()),
      (Some bob, (\<lambda>i. Inr None),
       Inl (serviceError ''auth/network-request-failed'' ''A network error has occurred''))]"

section \<open>Shared facts\<close>

lemma rethrow_new_Error: "m \<noteq> [] \<Longrightarrow> rethrow fb (Inl (new_Error m)) = Inl (new_Error m)"
  by (simp add: rethrow_def new_Error_def)

lemma message_new_Error [simp]: "message (new_Error m) = m"
  by (simp add: new_Error_def)

lemma code_new_Error [simp]: "code (new_Error m) = None"
  by (simp add: new_Error_def)

section \<open>Registration\<close>

text \<open>
  C3. Whenever a field is empty, the password is shorter than 6, or the role is neither
  \<^verbatim>\<open>client\<close> nor \<^verbatim>\<open>admin\<close>, \<^verbatim>\<open>signUp\<close> fails with one of its three validation
  messages and leaves the backend exactly as it was: no remote call is in the trace, no
  identity was created and no profile document written, whatever the remote services
  would have answered.
\<close>

theorem signUp_rejects_invalid_input_locally:
  assumes "email' = [] \<or> password = [] \<or> name = [] \<or> role = [] \<or>
           length password < 6 \<or> role \<notin> {''client'', ''admin''}"
  shows "\<exists>m \<in> set signUp_validation_messages.
           signUp s email' password name role created written verified = (Inl (new_Error m), s)"
  using assms
  by (auto simp: signUp_def signUp_try_def signUp_validation_messages_def rethrow_new_Error)

theorem signUp_rejects_invalid_input_locally_witness:
  "''manager'' \<notin> {''client'', ''admin''} \<and>
   (\<exists>m \<in> set signUp_validation_messages.
      signUp emptyBackend ''a@b.c'' ''secret1'' ''Ann'' ''manager''
        (Inr alice) (Inr 1) (Inr None) = (Inl (new_Error m), emptyBackend)) \<and>
   (\<exists>m \<in> set signUp_validation_messages.
      signUp emptyBackend ''a@b.c'' ''secret1'' [] ''client''
        (Inr alice) (Inr 1) (Inr None) = (Inl (new_Error m), emptyBackend)) \<and>
   length ''12345'' < 6 \<and>
   (\<exists>m \<in> set signUp_validation_messages.
      signUp emptyBackend ''a@b.c'' ''12345'' ''Ann'' ''client''
        (Inr alice) (Inr 1) (Inr None) = (Inl (new_Error m), emptyBackend))"
  using
    signUp_rejects_invalid_input_locally
      [of "''a@b.c''" "''secret1''" "''Ann''" "''manager''" emptyBackend "Inr alice" "Inr 1" "Inr None"]
    signUp_rejects_invalid_input_locally
      [of "''a@b.c''" "''secret1''" "[]" "''client''" emptyBackend "Inr alice" "Inr 1" "Inr None"]
    signUp_rejects_invalid_input_locally
      [of "''a@b.c''" "''12345''" "''Ann''" "''client''" emptyBackend "Inr alice" "Inr 1" "Inr None"]
  by simp

section \<open>Ticket creation\<close>

text \<open>
  C1. Whenever \<^verbatim>\<open>createTicket\<close> resolves (with the id \<open>docId\<close>), somebody was signed in
  when it was called and the backend holds exactly one more ticket, stored under
  \<open>docId\<close>, whose \<^verbatim>\<open>status\<close> is \<^verbatim>\<open>open\<close> and whose \<^verbatim>\<open>clientId\<close> is that user's uid,
  whatever title, description and type were passed. When nobody is signed in the call
  fails with the not-logged-in message and the backend is unchanged.
\<close>

theorem createTicket_open_and_owned:
  "(fst (createTicket s title' description' type' fetched added) = Inr docId \<longrightarrow>
      (\<exists>cu d. currentUser s = Some cu \<and>
         tickets (snd (createTicket s title' description' type' fetched added)) = tickets s @ [(docId, d)] \<and>
         status d = ''open'' \<and> clientId d = uid cu)) \<and>
   (currentUser s = None \<longrightarrow>
      createTicket s title' description' type' fetched added =
        (Inl (new_Error ''You must be logged in to create a ticket''), s))"
  by (auto simp: createTicket_def createTicket_try_def rethrow_new_Error rethrow_def issue_def Let_def
      split: option.splits sum.splits if_splits prod.splits)

theorem createTicket_open_and_owned_witness:
  "fst (createTicket aliceSession ''Crash on launch'' ''App crashes'' ''bug''
          (Inr (Some (profile ''alice@example.com'' ''Alice'' (Some ''client'')))) (Inr (''t1'', 7))) = Inr ''t1'' \<and>
   (\<exists>cu d. currentUser aliceSession = Some cu \<and>
      tickets (snd (createTicket aliceSession ''Crash on launch'' ''App crashes'' ''bug''
          (Inr (Some (profile ''alice@example.com'' ''Alice'' (Some ''client'')))) (Inr (''t1'', 7))))
        = tickets aliceSession @ [(''t1'', d)] \<and>
      status d = ''open'' \<and> clientId d = uid cu) \<and>
   currentUser emptyBackend = None \<and>
   createTicket emptyBackend ''Crash on launch'' ''App crashes'' ''bug'' (Inr None) (Inr (''t1'', 7)) =
     (Inl (new_Error ''You must be logged in to create a ticket''), emptyBackend)"
proof -
  have ok: "fst (createTicket aliceSession ''Crash on launch'' ''App crashes'' ''bug''
          (Inr (Some (profile ''alice@example.com'' ''Alice'' (Some ''client'')))) (Inr (''t1'', 7))) = Inr ''t1''"
    by (simp add: createTicket_def createTicket_try_def aliceSession_def emptyBackend_def rethrow_def
        Let_def issue_def)
  have no: "currentUser emptyBackend = None"
    by (simp add: emptyBackend_def)
  from ok no
    createTicket_open_and_owned [of aliceSession "''Crash on launch''" "''App crashes''" "''bug''"
      "Inr (Some (profile ''alice@example.com'' ''Alice'' (Some ''client'')))" "Inr (''t1'', 7)" "''t1''"]
    createTicket_open_and_owned [of emptyBackend "''Crash on launch''" "''App crashes''" "''bug''"
      "Inr None" "Inr (''t1'', 7)" "''t1''"]
  show ?thesis by blast
qed

section \<open>Status updates\<close>

lemma invalid_status_message_eq:
  "''Status must be one of: '' @ join '', '' validStatuses = invalid_status_message"
  by (simp add: validStatuses_def invalid_status_message_def)

text \<open>
  C2, as stated, at an empty ticket id: with a status outside the four allowed ones,
  \<^verbatim>\<open>updateTicketStatus('', 'bogus')\<close> fails on the check of line 304, with the message
  \<^verbatim>\<open>Ticket ID is required\<close>, not with the message that names the allowed set.
\<close>

theorem updateTicketStatus_empty_id_counterexample:
  "''bogus'' \<notin> set validStatuses \<and>
   updateTicketStatus emptyBackend [] ''bogus'' (Inr 0) =
     (Inl (new_Error ''Ticket ID is required''), emptyBackend) \<and>
   new_Error ''Ticket ID is required'' \<noteq> new_Error invalid_status_message"
  by (simp add: updateTicketStatus_def updateTicketStatus_try_def validStatuses_def rethrow_def
      new_Error_def invalid_status_message_def)

text \<open>
  C2, amended. For every status outside \<^verbatim>\<open>open\<close>, \<^verbatim>\<open>in-progress\<close>, \<^verbatim>\<open>resolved\<close>,
  \<^verbatim>\<open>closed\<close>, \<^verbatim>\<open>updateTicketStatus\<close> fails and returns the backend unchanged (no ticket is
  touched, no remote call is issued), whatever \<^verbatim>\<open>updateDoc\<close> would have answered; the
  message names the allowed set when the ticket id is not empty, and is
  \<^verbatim>\<open>Ticket ID is required\<close> when it is.
\<close>

theorem updateTicketStatus_rejects_unknown_status:
  assumes "status' \<notin> set validStatuses"
  shows "updateTicketStatus s ticketId status' updated =
           (Inl (new_Error (if ticketId = [] then ''Ticket ID is required''
                            else invalid_status_message)), s)"
proof (cases "ticketId = []")
  case True
  then show ?thesis
    by (simp add: updateTicketStatus_def updateTicketStatus_try_def rethrow_new_Error)
next
  case False
  have "invalid_status_message \<noteq> []"
    by (simp add: invalid_status_message_def)
  then have "rethrow ''Failed to update ticket status'' (Inl (new_Error invalid_status_message))
             = Inl (new_Error invalid_status_message)"
    by (rule rethrow_new_Error)
  with False assms show ?thesis
    unfolding updateTicketStatus_def updateTicketStatus_try_def invalid_status_message_eq
    by simp
qed

theorem updateTicketStatus_rejects_unknown_status_witness:
  "''done'' \<notin> set validStatuses \<and>
   updateTicketStatus aliceSession ''t1'' ''done'' (Inr 9) =
     (Inl (new_Error ''Status must be one of: open, in-progress, resolved, closed''), aliceSession)"
  using updateTicketStatus_rejects_unknown_status [of "''done''" aliceSession "''t1''" "Inr 9"]
  by (simp add: validStatuses_def invalid_status_message_def)

section \<open>Sign-in\<close>

text \<open>
  C9. With a non-empty email and password, a rejection of the sign-in service is told
  apart by its code: \<^verbatim>\<open>auth/wrong-password\<close> gives the incorrect-password message,
  \<^verbatim>\<open>auth/user-not-found\<close> the no-account message, \<^verbatim>\<open>auth/invalid-email\<close> the
  invalid-email message, and any other rejection keeps its own message, or
  \<^verbatim>\<open>Failed to sign in\<close> when it has none. Whatever the service answers, an error that
  \<^verbatim>\<open>signIn\<close> fails with is a fresh \<^verbatim>\<open>Error\<close>: it carries no service code and its message
  is not empty.
\<close>

theorem signIn_discriminates_by_code:
  assumes "email' \<noteq> []" and "password \<noteq> []"
  shows "(code e = Some ''auth/wrong-password'' \<longrightarrow>
            fst (signIn s email' password (Inl e)) = Inl (new_Error ''Incorrect password'')) \<and>
         (code e = Some ''auth/user-not-found'' \<longrightarrow>
            fst (signIn s email' password (Inl e)) = Inl (new_Error ''No account found with this email'')) \<and>
         (code e = Some ''auth/invalid-email'' \<longrightarrow>
            fst (signIn s email' password (Inl e)) = Inl (new_Error ''Invalid email address'')) \<and>
         (code e \<notin> {Some ''auth/wrong-password'', Some ''auth/user-not-found'', Some ''auth/invalid-email''} \<longrightarrow>
            fst (signIn s email' password (Inl e)) =
              Inl (new_Error (if message e = [] then ''Failed to sign in'' else message e))) \<and>
         (\<forall>err. fst (signIn s email' password answered) = Inl err \<longrightarrow>
            code err = None \<and> message err \<noteq> [])"
  using assms
  by (auto simp: signIn_def signIn_try_def signIn_catch_def new_Error_def Let_def issue_def
      split: sum.splits if_splits)

theorem signIn_discriminates_by_code_witness:
  "fst (signIn emptyBackend ''x@x.com'' ''wrong'' (Inl (serviceError ''auth/wrong-password'' ''The password is invalid'')))
     = Inl (new_Error ''Incorrect password'') \<and>
   fst (signIn emptyBackend ''x@x.com'' ''wrong'' (Inl (serviceError ''auth/user-not-found'' ''There is no user record'')))
     = Inl (new_Error ''No account found with this email'') \<and>
   fst (signIn emptyBackend ''x@x.com'' ''wrong'' (Inl (serviceError ''auth/invalid-email'' ''The email address is badly formatted'')))
     = Inl (new_Error ''Invalid email address'') \<and>
   fst (signIn emptyBackend ''x@x.com'' ''wrong'' (Inl (serviceError ''auth/network-request-failed'' ''A network error has occurred'')))
     = Inl (new_Error ''A network error has occurred'') \<and>
   fst (signIn emptyBackend ''x@x.com'' ''wrong'' (Inl (serviceError ''auth/too-many-requests'' [])))
     = Inl (new_Error ''Failed to sign in'') \<and>
   code (new_Error ''Failed to sign in'') = None \<and> message (new_Error ''Failed to sign in'') \<noteq> []"
  using
    signIn_discriminates_by_code [of "''x@x.com''" "''wrong''"
      "serviceError ''auth/wrong-password'' ''The password is invalid''" emptyBackend]
    signIn_discriminates_by_code [of "''x@x.com''" "''wrong''"
      "serviceError ''auth/user-not-found'' ''There is no user record''" emptyBackend]
    signIn_discriminates_by_code [of "''x@x.com''" "''wrong''"
      "serviceError ''auth/invalid-email'' ''The email address is badly formatted''" emptyBackend]
    signIn_discriminates_by_code [of "''x@x.com''" "''wrong''"
      "serviceError ''auth/network-request-failed'' ''A network error has occurred''" emptyBackend]
    signIn_discriminates_by_code [of "''x@x.com''" "''wrong''"
      "serviceError ''auth/too-many-requests'' []" emptyBackend
      "Inl (serviceError ''auth/too-many-requests'' [])"]
  by (simp add: serviceError_def)

section \<open>Registration is not atomic\<close>

text \<open>
  C4, as stated, when the profile write itself is rejected after the identity was
  created: \<^verbatim>\<open>signUp\<close> fails with the message of the rejection, which is not the
  message of the profile-creation error.
\<close>

theorem signUp_write_failure_counterexample:
  "validSignUp ''a@b.c'' ''secret1'' ''Ann'' ''client'' \<and>
   fst (signUp emptyBackend ''a@b.c'' ''secret1'' ''Ann'' ''client'' (Inr alice)
          (Inl (serviceError ''firestore/permission-denied'' ''Missing or insufficient permissions''))
          (Inr None))
     = Inl (new_Error ''Missing or insufficient permissions'') \<and>
   new_Error ''Missing or insufficient permissions'' \<noteq> new_Error profile_creation_message"
  by (simp add: validSignUp_def signUp_def signUp_try_def Let_def rethrow_def serviceError_def
      new_Error_def profile_creation_message_def)

text \<open>
  C4, amended. With valid arguments and an identity \<open>u\<close> created: when the verification
  read finds no document, \<^verbatim>\<open>signUp\<close> fails with \<^verbatim>\<open>Failed to create user profile\<close>; when
  the profile write or the verification read is itself rejected, it fails with the
  message of that rejection, or \<^verbatim>\<open>Failed to create account\<close> when it has none. In all
  three cases the identity stays among the accounts and stays signed in, the remote calls
  issued are only the creation, the write and (after a write) the read, so nothing undoes
  the creation; and after a rejected write the stored profiles are what they were.
\<close>

theorem signUp_not_atomic:
  assumes "validSignUp email' password name role"
  shows
    "(let (r, s') = signUp s email' password name role (Inr u) (Inl e) verified in
        r = Inl (new_Error (if message e = [] then ''Failed to create account'' else message e)) \<and>
        accounts s' = accounts s @ [u] \<and> currentUser s' = Some u \<and> users s' = users s \<and>
        added_calls s s' = [CreateUserWithEmailAndPassword email', SetDoc ''users'' (uid u)]) \<and>
     (let (r, s') = signUp s email' password name role (Inr u) (Inr ts) (Inr None) in
        r = Inl (new_Error profile_creation_message) \<and>
        accounts s' = accounts s @ [u] \<and> currentUser s' = Some u \<and>
        added_calls s s' = [CreateUserWithEmailAndPassword email', SetDoc ''users'' (uid u),
                            GetDoc ''users'' (uid u)]) \<and>
     (let (r, s') = signUp s email' password name role (Inr u) (Inr ts) (Inl e) in
        r = Inl (new_Error (if message e = [] then ''Failed to create account'' else message e)) \<and>
        accounts s' = accounts s @ [u] \<and> currentUser s' = Some u \<and>
        added_calls s s' = [CreateUserWithEmailAndPassword email', SetDoc ''users'' (uid u),
                            GetDoc ''users'' (uid u)])"
  using assms
  by (simp add: validSignUp_def signUp_def signUp_try_def Let_def rethrow_def issue_def
      added_calls_def profile_creation_message_def)

theorem signUp_not_atomic_witness:
  "validSignUp ''a@b.c'' ''secret1'' ''Ann'' ''client'' \<and>
   (let (r, s') = signUp emptyBackend ''a@b.c'' ''secret1'' ''Ann'' ''client'' (Inr alice)
                    (Inr 4) (Inr None) in
      r = Inl (new_Error ''Failed to create user profile'') \<and> accounts s' = [alice] \<and>
      currentUser s' = Some alice) \<and>
   (let (r, s') = signUp emptyBackend ''a@b.c'' ''secret1'' ''Ann'' ''client'' (Inr alice)
                    (Inl (serviceError ''firestore/unavailable'' [])) (Inr None) in
      r = Inl (new_Error ''Failed to create account'') \<and> accounts s' = [alice] \<and>
      users s' (uid alice) = None)"
proof -
  have v: "validSignUp ''a@b.c'' ''secret1'' ''Ann'' ''client''"
    by (simp add: validSignUp_def)
  show ?thesis
    using v
      signUp_not_atomic [OF v, of emptyBackend alice "serviceError ''firestore/unavailable'' []" "Inr None" 4]
    by (simp add: Let_def split_def emptyBackend_def profile_creation_message_def serviceError_def)
qed

section \<open>Role resolution\<close>

lemma reads_in_retry_trace [simp]: "reads_in (retry_trace u k) = Suc k"
  by (induction k) auto

lemma waited_in_retry_trace [simp]: "waited_in (retry_trace u k) = 500 * k"
  by (induction k) auto

lemma getUserRole_after_missing:
  assumes "userId \<noteq> []"
    and "\<forall>i<k. reads i = Inr None"
    and "int k \<le> retries"
    and "reads k \<noteq> Inr None \<or> int k = retries"
  shows "getUserRole s userId retries reads =
           (settle (reads k), s\<lparr>calls := calls s @ retry_trace userId k\<rparr>)"
  using assms
proof (induction k arbitrary: s retries reads)
  case 0
  then show ?case
    by (subst getUserRole.simps)
       (auto simp: settle_def rethrow_def issue_def Let_def split: sum.splits option.splits)
next
  case (Suc k)
  have r0: "reads 0 = Inr None" using Suc.prems(2) by simp
  have pos: "retries > 0" using Suc.prems(3) by simp
  have step: "getUserRole s userId retries reads =
      getUserRole (issue (SetTimeout 500) (issue (GetDoc ''users'' userId) s)) userId (retries - 1)
        (\<lambda>i. reads (Suc i))"
    using Suc.prems(1) r0 pos by (subst getUserRole.simps) (simp add: Let_def)
  have "getUserRole (issue (SetTimeout 500) (issue (GetDoc ''users'' userId) s)) userId (retries - 1)
        (\<lambda>i. reads (Suc i)) =
      (settle (reads (Suc k)),
       (issue (SetTimeout 500) (issue (GetDoc ''users'' userId) s))
         \<lparr>calls := calls (issue (SetTimeout 500) (issue (GetDoc ''users'' userId) s)) @ retry_trace userId k\<rparr>)"
    using Suc.prems by (intro Suc.IH) auto
  with step show ?case
    by (simp add: issue_def)
qed

lemma getUserRole_stops:
  assumes "userId \<noteq> []" and "0 \<le> retries"
  shows "\<exists>k. int k \<le> retries \<and>
           getUserRole s userId retries reads =
             (settle (reads k), s\<lparr>calls := calls s @ retry_trace userId k\<rparr>)"
proof (cases "\<exists>i. int i \<le> retries \<and> reads i \<noteq> Inr None")
  case True
  define k where "k = (LEAST i. int i \<le> retries \<and> reads i \<noteq> Inr None)"
  have k: "int k \<le> retries \<and> reads k \<noteq> Inr None"
    unfolding k_def using True by (rule LeastI_ex)
  have "\<forall>i<k. reads i = Inr None"
  proof (intro allI impI)
    fix i assume "i < k"
    then have "\<not> (int i \<le> retries \<and> reads i \<noteq> Inr None)"
      unfolding k_def by (rule not_less_Least)
    moreover have "int i \<le> retries" using \<open>i < k\<close> k by simp
    ultimately show "reads i = Inr None" by simp
  qed
  with k assms(1) show ?thesis
    by (intro exI[of _ k]) (simp add: getUserRole_after_missing)
next
  case False
  then have "\<forall>i<nat retries. reads i = Inr None" using assms(2) by auto
  with assms show ?thesis
    by (intro exI[of _ "nat retries"]) (simp add: getUserRole_after_missing)
qed

lemma added_calls_append [simp]: "added_calls s (s\<lparr>calls := calls s @ xs\<rparr>) = xs"
  by (simp add: added_calls_def)

text \<open>
  C5. \<^verbatim>\<open>getUserRole\<close> is total, and for a non-empty user id and a retry budget
  \<open>retries \<ge> 0\<close> (3 by default): whatever the reads answer, the calls of a run are
  \<open>j + 1\<close> reads with a wait of 500 ms after each of the first \<open>j\<close>, for some
  \<open>j \<le> retries\<close>; when no read up to the \<open>retries\<close>-th finds the document, the run
  fails with \<^verbatim>\<open>User profile not found\<close> after \<open>retries + 1\<close> reads and \<open>retries\<close> waits;
  when the \<open>k\<close>-th read (\<open>k \<le> retries\<close>) is the first to find it, the run stops there,
  after \<open>k\<close> waits, with the stored role, or with \<^verbatim>\<open>User role not found\<close> when the
  document has no (or an empty) role.
\<close>

theorem getUserRole_bounded_retry:
  assumes "userId \<noteq> []" and "0 \<le> retries"
  shows
    "(\<exists>j. int j \<le> retries \<and>
          added_calls s (snd (getUserRole s userId retries reads)) = retry_trace userId j) \<and>
     ((\<forall>i. int i \<le> retries \<longrightarrow> reads i = Inr None) \<longrightarrow>
        fst (getUserRole s userId retries reads) = Inl (new_Error ''User profile not found'') \<and>
        reads_in (added_calls s (snd (getUserRole s userId retries reads))) = Suc (nat retries) \<and>
        waited_in (added_calls s (snd (getUserRole s userId retries reads))) = 500 * nat retries) \<and>
     (int k \<le> retries \<and> (\<forall>i<k. reads i = Inr None) \<and> reads k = Inr (Some userData) \<longrightarrow>
        fst (getUserRole s userId retries reads) =
          (if falsy (d_role userData) then Inl (new_Error ''User role not found'')
           else Inr (the (d_role userData))) \<and>
        reads_in (added_calls s (snd (getUserRole s userId retries reads))) = Suc k \<and>
        waited_in (added_calls s (snd (getUserRole s userId retries reads))) = 500 * k)"
proof (intro conjI impI)
  from getUserRole_stops [OF assms, of s reads]
  obtain j where "int j \<le> retries"
    and "getUserRole s userId retries reads =
           (settle (reads j), s\<lparr>calls := calls s @ retry_trace userId j\<rparr>)"
    by blast
  then show "\<exists>j. int j \<le> retries \<and>
          added_calls s (snd (getUserRole s userId retries reads)) = retry_trace userId j"
    by (intro exI[of _ j]) simp
next
  assume never: "\<forall>i. int i \<le> retries \<longrightarrow> reads i = Inr None"
  have "getUserRole s userId retries reads =
          (settle (reads (nat retries)), s\<lparr>calls := calls s @ retry_trace userId (nat retries)\<rparr>)"
    using assms never by (intro getUserRole_after_missing) auto
  moreover have "reads (nat retries) = Inr None" using never assms(2) by simp
  ultimately have run: "getUserRole s userId retries reads =
      (Inl (new_Error ''User profile not found''), s\<lparr>calls := calls s @ retry_trace userId (nat retries)\<rparr>)"
    by (simp add: settle_def)
  show "fst (getUserRole s userId retries reads) = Inl (new_Error ''User profile not found'')"
    by (simp add: run)
  show "reads_in (added_calls s (snd (getUserRole s userId retries reads))) = Suc (nat retries)"
    by (simp add: run)
  show "waited_in (added_calls s (snd (getUserRole s userId retries reads))) = 500 * nat retries"
    by (simp add: run)
next
  assume found: "int k \<le> retries \<and> (\<forall>i<k. reads i = Inr None) \<and> reads k = Inr (Some userData)"
  have run: "getUserRole s userId retries reads =
          (settle (reads k), s\<lparr>calls := calls s @ retry_trace userId k\<rparr>)"
    using assms(1) found by (intro getUserRole_after_missing) auto
  show "fst (getUserRole s userId retries reads) =
          (if falsy (d_role userData) then Inl (new_Error ''User role not found'')
           else Inr (the (d_role userData)))"
    using found by (simp add: run settle_def)
  show "reads_in (added_calls s (snd (getUserRole s userId retries reads))) = Suc k"
    by (simp add: run)
  show "waited_in (added_calls s (snd (getUserRole s userId retries reads))) = 500 * k"
    by (simp add: run)
qed

theorem getUserRole_bounded_retry_witness:
  "fst (getUserRole emptyBackend ''u-alice'' 3 (\<lambda>i. Inr None)) = Inl (new_Error ''User profile not found'') \<and>
   reads_in (added_calls emptyBackend (snd (getUserRole emptyBackend ''u-alice'' 3 (\<lambda>i. Inr None)))) = 4 \<and>
   waited_in (added_calls emptyBackend (snd (getUserRole emptyBackend ''u-alice'' 3 (\<lambda>i. Inr None)))) = 1500 \<and>
   fst (getUserRole emptyBackend ''u-alice'' 3 (visibleFrom 2 (profile ''alice@example.com'' ''Alice'' (Some ''client''))))
     = Inr ''client'' \<and>
   reads_in (added_calls emptyBackend (snd (getUserRole emptyBackend ''u-alice'' 3
      (visibleFrom 2 (profile ''alice@example.com'' ''Alice'' (Some ''client'')))))) = 3 \<and>
   waited_in (added_calls emptyBackend (snd (getUserRole emptyBackend ''u-alice'' 3
      (visibleFrom 2 (profile ''alice@example.com'' ''Alice'' (Some ''client'')))))) = 1000 \<and>
   fst (getUserRole emptyBackend ''u-alice'' 3 (visibleFrom 0 (profile ''alice@example.com'' ''Alice'' None)))
     = Inl (new_Error ''User role not found'')"
  using
    getUserRole_bounded_retry [where userId = "''u-alice''" and retries = 3 and reads = "\<lambda>i. Inr None"
      and s = emptyBackend]
    getUserRole_bounded_retry [where userId = "''u-alice''" and retries = 3 and s = emptyBackend
      and reads = "visibleFrom 2 (profile ''alice@example.com'' ''Alice'' (Some ''client''))"
      and k = 2 and userData = "profile ''alice@example.com'' ''Alice'' (Some ''client'')"]
    getUserRole_bounded_retry [where userId = "''u-alice''" and retries = 3 and s = emptyBackend
      and reads = "visibleFrom 0 (profile ''alice@example.com'' ''Alice'' None)"
      and k = 0 and userData = "profile ''alice@example.com'' ''Alice'' None"]
  by (simp add: visibleFrom_def falsy_def profile_def)

section \<open>Ticket subscriptions\<close>

lemma mset_insertDesc: "mset (insertDesc x xs) = add_mset x (mset xs)"
  by (induction xs) auto

lemma set_insertDesc: "set (insertDesc x xs) = insert x (set xs)"
  by (induction xs) auto

lemma sorted_insertDesc:
  "sorted_wrt (\<lambda>a b. createdAt (snd b) \<le> createdAt (snd a)) xs \<Longrightarrow>
   sorted_wrt (\<lambda>a b. createdAt (snd b) \<le> createdAt (snd a)) (insertDesc x xs)"
  by (induction xs) (auto simp: set_insertDesc)

lemma mset_foldr_insertDesc: "mset (foldr insertDesc xs []) = mset xs"
  by (induction xs) (auto simp: mset_insertDesc)

lemma sorted_foldr_insertDesc:
  "sorted_wrt (\<lambda>a b. createdAt (snd b) \<le> createdAt (snd a)) (foldr insertDesc xs [])"
  by (induction xs) (auto simp: sorted_insertDesc)

lemma createdAt_toTicket [simp]: "createdAt (toTicket doc) = createdAt (snd doc)"
  by (simp add: toTicket_def Let_def)

lemma clientId_toTicket [simp]: "clientId (toTicket doc) = clientId (snd doc)"
  by (simp add: toTicket_def Let_def)

lemma newestFirst_onSnapshot_next: "newestFirst (onSnapshot_next q docs)"
  unfolding newestFirst_def onSnapshot_next_def runQuery_def
  using sorted_foldr_insertDesc [of "filter (matches q) docs"]
  by (simp add: sorted_wrt_map)

lemma mset_onSnapshot_next:
  "mset (onSnapshot_next q docs) = mset (map toTicket (filter (matches q) docs))"
  unfolding onSnapshot_next_def runQuery_def
  by (simp add: mset_foldr_insertDesc)

text \<open>
  C6. A subscription made by \<^verbatim>\<open>getMyTickets\<close> while \<open>cu\<close> is signed in delivers, for every
  later content \<open>docs\<close> of the collection, a list in which every ticket has
  \<^verbatim>\<open>clientId\<close> equal to \<open>cu\<close>'s uid, which is in descending order of creation time, and
  which holds exactly the tickets of \<open>docs\<close> with that \<^verbatim>\<open>clientId\<close> (each once).
  \<^verbatim>\<open>getAllTickets\<close> always subscribes, and delivers all of \<open>docs\<close> in the same order.
  The store's evaluation of the query is the one of \<open>runQuery\<close>.
\<close>

theorem subscriptions_deliver_sorted_matching_set:
  "(getMyTickets s = Inr q \<longrightarrow>
      (\<exists>cu. currentUser s = Some cu \<and>
         (\<forall>t \<in> set (onSnapshot_next q docs). clientId t = uid cu) \<and>
         newestFirst (onSnapshot_next q docs) \<and>
         mset (onSnapshot_next q docs) =
           mset (map toTicket (filter (\<lambda>doc. clientId (snd doc) = uid cu) docs)))) \<and>
   (\<exists>qa. getAllTickets s = Inr qa \<and>
      newestFirst (onSnapshot_next qa docs) \<and>
      mset (onSnapshot_next qa docs) = mset (map toTicket docs))"
proof (intro conjI impI)
  assume sub: "getMyTickets s = Inr q"
  then obtain cu where cu: "currentUser s = Some cu" and q: "q = Query (Some (uid cu))"
    by (auto simp: getMyTickets_def split: option.splits)
  have m: "matches q = (\<lambda>doc. clientId (snd doc) = uid cu)"
    by (auto simp: matches_def q)
  have "set (onSnapshot_next q docs) = toTicket ` {doc \<in> set docs. matches q doc}"
    using mset_onSnapshot_next [of q docs, THEN arg_cong, of set_mset] by simp
  then have own: "\<forall>t \<in> set (onSnapshot_next q docs). clientId t = uid cu"
    by (auto simp: m)
  show "\<exists>cu. currentUser s = Some cu \<and>
         (\<forall>t \<in> set (onSnapshot_next q docs). clientId t = uid cu) \<and>
         newestFirst (onSnapshot_next q docs) \<and>
         mset (onSnapshot_next q docs) =
           mset (map toTicket (filter (\<lambda>doc. clientId (snd doc) = uid cu) docs))"
    using cu own newestFirst_onSnapshot_next [of q docs] mset_onSnapshot_next [of q docs]
    by (simp add: m)
next
  have "matches (Query None) = (\<lambda>doc. True)"
    by (auto simp: matches_def)
  then show "\<exists>qa. getAllTickets s = Inr qa \<and>
      newestFirst (onSnapshot_next qa docs) \<and>
      mset (onSnapshot_next qa docs) = mset (map toTicket docs)"
    using newestFirst_onSnapshot_next [of "Query None" docs] mset_onSnapshot_next [of "Query None" docs]
    by (simp add: getAllTickets_def)
qed

theorem subscriptions_deliver_sorted_matching_set_witness:
  "getMyTickets aliceSession = Inr (Query (Some ''u-alice'')) \<and>
   map ticket_id (onSnapshot_next (Query (Some ''u-alice'')) sampleDocs) = [''t3'', ''t1''] \<and>
   (\<exists>cu. currentUser aliceSession = Some cu \<and>
      list_all (\<lambda>t. clientId t = uid cu) (onSnapshot_next (Query (Some ''u-alice'')) sampleDocs) \<and>
      newestFirst (onSnapshot_next (Query (Some ''u-alice'')) sampleDocs) \<and>
      mset (onSnapshot_next (Query (Some ''u-alice'')) sampleDocs) =
        mset (map toTicket (filter (\<lambda>doc. clientId (snd doc) = uid cu) sampleDocs)))"
proof -
  have sub: "getMyTickets aliceSession = Inr (Query (Some ''u-alice''))"
    by (simp add: getMyTickets_def aliceSession_def emptyBackend_def alice_def)
  have ids: "map ticket_id (onSnapshot_next (Query (Some ''u-alice'')) sampleDocs) = [''t3'', ''t1'']"
    by (simp add: onSnapshot_next_def runQuery_def matches_def sampleDocs_def sampleTicket_def
        toTicket_def Let_def)
  from sub ids
    subscriptions_deliver_sorted_matching_set [of aliceSession "Query (Some ''u-alice'')" sampleDocs]
  show ?thesis
    by (simp add: list_all_iff)
qed

section \<open>Validation of a new ticket\<close>

lemma dropWhile_id: "xs = [] \<or> \<not> P (hd xs) \<Longrightarrow> dropWhile P xs = xs"
  by (cases xs) auto

lemma trim_trim: "trim (trim str) = trim str"
proof -
  define a where "a = dropWhile isWhiteSpace str"
  define b where "b = dropWhile isWhiteSpace (rev a)"
  have t: "trim str = rev b" by (simp add: trim_def a_def b_def)
  have a_hd: "a = [] \<or> \<not> isWhiteSpace (hd a)"
    unfolding a_def using hd_dropWhile [of isWhiteSpace str] by blast
  have b_hd: "b = [] \<or> \<not> isWhiteSpace (hd b)"
    unfolding b_def using hd_dropWhile [of isWhiteSpace "rev a"] by blast
  have "rev a = takeWhile isWhiteSpace (rev a) @ b"
    by (simp add: b_def)
  then have "rev (rev a) = rev (takeWhile isWhiteSpace (rev a) @ b)"
    by (rule arg_cong)
  then have split: "a = rev b @ rev (takeWhile isWhiteSpace (rev a))"
    by simp
  have rb_hd: "rev b = [] \<or> \<not> isWhiteSpace (hd (rev b))"
  proof (cases "rev b = []")
    case True
    then show ?thesis by simp
  next
    case False
    then have "hd (rev b @ rev (takeWhile isWhiteSpace (rev a))) = hd (rev b)"
      by (rule hd_append2)
    with split have "hd a = hd (rev b)" by simp
    moreover have "a \<noteq> []" using split False by auto
    ultimately show ?thesis using a_hd by simp
  qed
  have "dropWhile isWhiteSpace (rev b) = rev b"
    using rb_hd by (rule dropWhile_id)
  moreover have "dropWhile isWhiteSpace b = b"
    using b_hd by (rule dropWhile_id)
  ultimately show ?thesis
    by (simp add: t) (simp add: trim_def)
qed

lemma createTicket_tickets_cases:
  "tickets (snd (createTicket s t d ty fetched added)) = tickets s \<or>
   (\<exists>docId x. tickets (snd (createTicket s t d ty fetched added)) = tickets s @ [(docId, x)] \<and>
      title x = trim t \<and> description x = trim d)"
  by (simp add: createTicket_def createTicket_try_def Let_def issue_def
      split: option.split sum.split prod.split)

lemma trim_Nil [simp]: "trim [] = []"
  by (simp add: trim_def)

lemma trim_no_white:
  assumes "str \<noteq> []" and "\<not> isWhiteSpace (hd str)" and "\<not> isWhiteSpace (last str)"
  shows "trim str = str"
proof -
  have "dropWhile isWhiteSpace str = str"
    using assms(2) by (intro dropWhile_id) simp
  moreover have "dropWhile isWhiteSpace (rev str) = rev str"
    using assms(1,3) by (intro dropWhile_id) (simp add: hd_rev)
  ultimately show ?thesis
    by (simp add: trim_def)
qed

lemma trim_long_title: "trim (replicate 101 CHR ''a'') = replicate 101 CHR ''a''"
  by (rule trim_no_white) (simp_all add: isWhiteSpace_def)

text \<open>
  A run beside C8: with alice signed in, a title of three spaces passes the check of
  line 181, which tests the title as passed, and the ticket is stored with the trimmed
  title \<^verbatim>\<open>''\<close>, although the form tests the trimmed title.
\<close>

lemma createTicket_blank_title_stored:
  "trim ''   '' = [] \<and>
   createTicket aliceSession ''   '' ''x'' ''bug'' (Inr None) (Inr (''t1'', 5)) =
     (Inr ''t1'',
      aliceSession\<lparr>tickets :=
          [(''t1'', \<lparr>title = [], description = ''x'', ticketType = ''bug'', status = ''open'',
                    clientId = ''u-alice'', clientName = ''alice@example.com'',
                    clientEmail = ''alice@example.com'', createdAt = 5, updatedAt = None\<rparr>)],
        calls := [GetDoc ''users'' ''u-alice'', AddDoc ''tickets'']\<rparr>)"
  by (simp add: trim_def isWhiteSpace_def createTicket_def createTicket_try_def rethrow_def
      aliceSession_def emptyBackend_def alice_def issue_def Let_def lookupClientName_def)

text \<open>
  C8, as stated, at a title of 101 characters, with alice signed in: \<^verbatim>\<open>createTicket\<close> has
  no check on the length of the title, so the call resolves and the ticket is stored with
  all 101 characters of the title.
\<close>

theorem createTicket_long_title_counterexample:
  "100 < length (replicate 101 CHR ''a'') \<and>
   createTicket aliceSession (replicate 101 CHR ''a'') ''x'' ''bug'' (Inr None) (Inr (''t2'', 6)) =
     (Inr ''t2'',
      aliceSession\<lparr>tickets :=
          [(''t2'', \<lparr>title = replicate 101 CHR ''a'', description = ''x'', ticketType = ''bug'',
                    status = ''open'', clientId = ''u-alice'', clientName = ''alice@example.com'',
                    clientEmail = ''alice@example.com'', createdAt = 6, updatedAt = None\<rparr>)],
        calls := [GetDoc ''users'' ''u-alice'', AddDoc ''tickets'']\<rparr>)"
proof -
  have x: "trim ''x'' = ''x''"
    by (simp add: trim_def isWhiteSpace_def)
  have ne: "replicate 101 CHR ''a'' \<noteq> []"
    by simp
  show ?thesis
    using ne
    by (simp add: createTicket_def createTicket_try_def rethrow_def trim_long_title x
        aliceSession_def emptyBackend_def alice_def issue_def Let_def lookupClientName_def)
qed

text \<open>
  C8, amended. When the title, the description or the type as passed is empty, or the
  type is neither \<^verbatim>\<open>bug\<close> nor \<^verbatim>\<open>feature\<close>, \<^verbatim>\<open>createTicket\<close> fails and leaves the backend
  unchanged (no remote call): with one of its two validation messages when somebody is
  signed in, with the not-logged-in message when nobody is. The form's \<^verbatim>\<open>handleSubmit\<close>
  shows \<^verbatim>\<open>Please fill in all fields\<close> and calls nothing when the trimmed title or
  description is empty, and whenever it adds a ticket, the stored title and description
  are the trimmed, non-empty texts of the form. \<^verbatim>\<open>createTicket\<close> puts no bound on the
  length of the title: with somebody signed in, a title and a description that are not
  empty after trimming, a type that is \<^verbatim>\<open>bug\<close> or \<^verbatim>\<open>feature\<close> and an \<^verbatim>\<open>add\<close> that
  resolves, it resolves with the new id and stores the ticket with the trimmed title,
  whatever the title's length.
\<close>

theorem createTicket_validation_as_coded:
  "(title' = [] \<or> description' = [] \<or> type' = [] \<or> type' \<notin> {''bug'', ''feature''} \<longrightarrow>
      (\<exists>m \<in> set (case currentUser s of
                    None \<Rightarrow> [''You must be logged in to create a ticket'']
                  | Some cu \<Rightarrow> createTicket_validation_messages).
         createTicket s title' description' type' fetched added = (Inl (new_Error m), s))) \<and>
   (trim title' = [] \<or> trim description' = [] \<longrightarrow>
      handleSubmit s title' description' type' fetched added =
        ((''Error'', ''Please fill in all fields''), s)) \<and>
   (tickets (snd (handleSubmit s title' description' type' fetched added)) \<noteq> tickets s \<longrightarrow>
      trim title' \<noteq> [] \<and> trim description' \<noteq> [] \<and>
      (\<exists>docId d. tickets (snd (handleSubmit s title' description' type' fetched added)) =
                   tickets s @ [(docId, d)] \<and>
                 title d = trim title' \<and> description d = trim description')) \<and>
   (currentUser s \<noteq> None \<and> trim title' \<noteq> [] \<and> trim description' \<noteq> [] \<and>
    type' \<in> {''bug'', ''feature''} \<longrightarrow>
      fst (createTicket s title' description' type' fetched (Inr (newId, ts))) = Inr newId \<and>
      (\<exists>d. tickets (snd (createTicket s title' description' type' fetched (Inr (newId, ts)))) =
              tickets s @ [(newId, d)] \<and>
            title d = trim title' \<and> length (title d) = length (trim title')))"
proof (intro conjI impI)
  assume "title' = [] \<or> description' = [] \<or> type' = [] \<or> type' \<notin> {''bug'', ''feature''}"
  then show "\<exists>m \<in> set (case currentUser s of
                    None \<Rightarrow> [''You must be logged in to create a ticket'']
                  | Some cu \<Rightarrow> createTicket_validation_messages).
         createTicket s title' description' type' fetched added = (Inl (new_Error m), s)"
    by (cases "currentUser s")
       (auto simp: createTicket_def createTicket_try_def createTicket_validation_messages_def
          rethrow_new_Error)
next
  assume "trim title' = [] \<or> trim description' = []"
  then show "handleSubmit s title' description' type' fetched added =
        ((''Error'', ''Please fill in all fields''), s)"
    by (auto simp: handleSubmit_def)
next
  assume ch: "tickets (snd (handleSubmit s title' description' type' fetched added)) \<noteq> tickets s"
  then have ne: "trim title' \<noteq> [] \<and> trim description' \<noteq> []"
    by (auto simp: handleSubmit_def)
  then show "trim title' \<noteq> []" and "trim description' \<noteq> []" by simp_all
  have "tickets (snd (createTicket s (trim title') (trim description') type' fetched added)) \<noteq> tickets s"
    using ch ne by (simp add: handleSubmit_def split_def Let_def split: sum.splits)
  with createTicket_tickets_cases [of s "trim title'" "trim description'" type' fetched added]
  obtain docId d where
    "tickets (snd (createTicket s (trim title') (trim description') type' fetched added)) =
       tickets s @ [(docId, d)]"
    and "title d = trim (trim title')" and "description d = trim (trim description')"
    by blast
  then show "\<exists>docId d. tickets (snd (handleSubmit s title' description' type' fetched added)) =
                   tickets s @ [(docId, d)] \<and>
                 title d = trim title' \<and> description d = trim description'"
    using ne by (simp add: handleSubmit_def split_def Let_def trim_trim split: sum.splits)
next
  assume ok: "currentUser s \<noteq> None \<and> trim title' \<noteq> [] \<and> trim description' \<noteq> [] \<and>
    type' \<in> {''bug'', ''feature''}"
  then obtain cu where cu: "currentUser s = Some cu" by auto
  have raw: "title' \<noteq> []" "description' \<noteq> []" "type' \<noteq> []"
    using ok by auto
  show "fst (createTicket s title' description' type' fetched (Inr (newId, ts))) = Inr newId"
    using ok raw cu
    by (auto simp: createTicket_def createTicket_try_def rethrow_def Let_def)
  show "\<exists>d. tickets (snd (createTicket s title' description' type' fetched (Inr (newId, ts)))) =
              tickets s @ [(newId, d)] \<and>
            title d = trim title' \<and> length (title d) = length (trim title')"
    using ok raw cu
    by (auto simp: createTicket_def createTicket_try_def rethrow_def Let_def issue_def)
qed

theorem createTicket_validation_as_coded_witness:
  "(\<exists>m \<in> set createTicket_validation_messages.
      createTicket aliceSession [] ''x'' ''bug'' (Inr None) (Inr (''t1'', 5)) =
        (Inl (new_Error m), aliceSession)) \<and>
   createTicket emptyBackend [] ''x'' ''bug'' (Inr None) (Inr (''t1'', 5)) =
     (Inl (new_Error ''You must be logged in to create a ticket''), emptyBackend) \<and>
   handleSubmit aliceSession ''   '' ''x'' ''bug'' (Inr None) (Inr (''t1'', 5)) =
     ((''Error'', ''Please fill in all fields''), aliceSession) \<and>
   tickets (snd (handleSubmit aliceSession '' Crash '' ''App crashes'' ''bug'' (Inr None) (Inr (''t1'', 5))))
     \<noteq> tickets aliceSession \<and>
   (\<exists>docId d.
      tickets (snd (handleSubmit aliceSession '' Crash '' ''App crashes'' ''bug'' (Inr None) (Inr (''t1'', 5))))
        = tickets aliceSession @ [(docId, d)] \<and>
      title d = ''Crash'' \<and> description d = ''App crashes'') \<and>
   fst (createTicket aliceSession (replicate 101 CHR ''a'') ''App crashes'' ''bug'' (Inr None) (Inr (''t2'', 6)))
     = Inr ''t2'' \<and>
   (\<exists>d. tickets (snd (createTicket aliceSession (replicate 101 CHR ''a'') ''App crashes'' ''bug''
                        (Inr None) (Inr (''t2'', 6)))) = tickets aliceSession @ [(''t2'', d)] \<and>
        length (title d) = 101)"
proof -
  have cu: "currentUser aliceSession = Some alice"
    by (simp add: aliceSession_def)
  have nobody: "currentUser emptyBackend = None"
    by (simp add: emptyBackend_def)
  have blank: "trim ''   '' = []"
    by (simp add: trim_def isWhiteSpace_def)
  have t1: "trim '' Crash '' = ''Crash''" and t2: "trim ''App crashes'' = ''App crashes''"
    by (simp_all add: trim_def isWhiteSpace_def)
  have changed:
    "tickets (snd (handleSubmit aliceSession '' Crash '' ''App crashes'' ''bug'' (Inr None) (Inr (''t1'', 5))))
       \<noteq> tickets aliceSession"
    by (simp add: handleSubmit_def t1 t2 createTicket_def createTicket_try_def rethrow_def
        aliceSession_def emptyBackend_def issue_def Let_def)
  have c1: "\<exists>m \<in> set createTicket_validation_messages.
      createTicket aliceSession [] ''x'' ''bug'' (Inr None) (Inr (''t1'', 5)) =
        (Inl (new_Error m), aliceSession)"
    using
      createTicket_validation_as_coded [of "[]" "''x''" "''bug''" aliceSession "Inr None"
        "Inr (''t1'', 5)", THEN conjunct1]
    by (simp add: cu)
  have c0: "createTicket emptyBackend [] ''x'' ''bug'' (Inr None) (Inr (''t1'', 5)) =
     (Inl (new_Error ''You must be logged in to create a ticket''), emptyBackend)"
    using
      createTicket_validation_as_coded [of "[]" "''x''" "''bug''" emptyBackend "Inr None"
        "Inr (''t1'', 5)", THEN conjunct1]
    by (simp add: nobody)
  have c2: "handleSubmit aliceSession ''   '' ''x'' ''bug'' (Inr None) (Inr (''t1'', 5)) =
     ((''Error'', ''Please fill in all fields''), aliceSession)"
    using blank
      createTicket_validation_as_coded [of "''   ''" "''x''" "''bug''" aliceSession "Inr None"
        "Inr (''t1'', 5)", THEN conjunct2, THEN conjunct1]
    by blast
  have c3: "\<exists>docId d.
      tickets (snd (handleSubmit aliceSession '' Crash '' ''App crashes'' ''bug'' (Inr None) (Inr (''t1'', 5))))
        = tickets aliceSession @ [(docId, d)] \<and>
      title d = trim '' Crash '' \<and> description d = trim ''App crashes''"
    using changed
      createTicket_validation_as_coded [of "'' Crash ''" "''App crashes''" "''bug''" aliceSession
        "Inr None" "Inr (''t1'', 5)", THEN conjunct2, THEN conjunct2, THEN conjunct1]
    by blast
  have pre: "currentUser aliceSession \<noteq> None \<and> trim (replicate 101 CHR ''a'') \<noteq> [] \<and>
             trim ''App crashes'' \<noteq> [] \<and> ''bug'' \<in> {''bug'', ''feature''}"
    by (simp add: cu t2 trim_long_title)
  have c4: "fst (createTicket aliceSession (replicate 101 CHR ''a'') ''App crashes'' ''bug'' (Inr None)
                   (Inr (''t2'', 6))) = Inr ''t2'' \<and>
      (\<exists>d. tickets (snd (createTicket aliceSession (replicate 101 CHR ''a'') ''App crashes'' ''bug''
                        (Inr None) (Inr (''t2'', 6)))) = tickets aliceSession @ [(''t2'', d)] \<and>
            title d = trim (replicate 101 CHR ''a'') \<and>
            length (title d) = length (trim (replicate 101 CHR ''a'')))"
    using pre
      createTicket_validation_as_coded [of "replicate 101 CHR ''a''" "''App crashes''" "''bug''"
        aliceSession "Inr None" "Inr (''t1'', 5)" "''t2''" 6,
        THEN conjunct2, THEN conjunct2, THEN conjunct2]
    by blast
  then have c4': "fst (createTicket aliceSession (replicate 101 CHR ''a'') ''App crashes'' ''bug'' (Inr None)
                   (Inr (''t2'', 6))) = Inr ''t2'' \<and>
      (\<exists>d. tickets (snd (createTicket aliceSession (replicate 101 CHR ''a'') ''App crashes'' ''bug''
                        (Inr None) (Inr (''t2'', 6)))) = tickets aliceSession @ [(''t2'', d)] \<and>
            length (title d) = 101)"
    by (simp add: trim_long_title) blast
  from c1 c0 c2 changed c3 c4' show ?thesis
    unfolding t1 t2 by blast
qed

section \<open>The navigator\<close>

lemma getUserRole_empty_id:
  "getUserRole s [] retries reads = (Inl (new_Error ''User ID is required''), s)"
  by (subst getUserRole.simps) (simp add: rethrow_new_Error)

lemma FirebaseSignOut_notin_retry_trace: "FirebaseSignOut \<notin> set (retry_trace u k)"
  by (induction k) auto

lemma getUserRole_only_reads_and_waits:
  assumes "0 \<le> retries"
  shows "\<exists>xs. snd (getUserRole s userId retries reads) = s\<lparr>calls := calls s @ xs\<rparr> \<and>
              FirebaseSignOut \<notin> set xs"
proof (cases "userId = []")
  case True
  then show ?thesis
    by (intro exI[of _ "[]"]) (simp add: getUserRole_empty_id)
next
  case False
  from getUserRole_stops [OF False assms, of s reads]
  obtain k where "getUserRole s userId retries reads =
      (settle (reads k), s\<lparr>calls := calls s @ retry_trace userId k\<rparr>)"
    by blast
  then show ?thesis
    by (intro exI[of _ "retry_trace userId k"]) (simp add: FirebaseSignOut_notin_retry_trace)
qed

text \<open>
  C10. When the callback runs for a user \<open>au\<close> and \<^verbatim>\<open>getUserRole\<close> resolves with a role that
  is neither \<^verbatim>\<open>client\<close> nor \<^verbatim>\<open>admin\<close>, the navigator ends with that user and that role
  set and loading off, and renders the stack navigator with no screen in it: not the
  auth screens, not the client tabs, not the admin screens. The session is untouched
  and no sign-out was issued.
\<close>

theorem unknown_role_renders_empty_navigator:
  assumes "fst (getUserRole s (uid au) 3 reads) = Inr role"
    and "role \<notin> {''client'', ''admin''}"
  shows "(let (s', n') = authStateChanged (s, n) (Some au) reads signedOut in
            nav_user n' = Some au \<and> userRole n' = Some role \<and> loading n' = False \<and>
            render n' = EmptyNavigator \<and>
            currentUser s' = currentUser s \<and> FirebaseSignOut \<notin> set (added_calls s s'))"
proof -
  obtain r s1 where run: "getUserRole s (uid au) 3 reads = (r, s1)"
    by (cases "getUserRole s (uid au) 3 reads")
  with assms(1) have r: "r = Inr role" by simp
  from getUserRole_only_reads_and_waits [of 3 s "uid au" reads] run
  obtain xs where s1: "s1 = s\<lparr>calls := calls s @ xs\<rparr>" and xs: "FirebaseSignOut \<notin> set xs"
    by auto
  show ?thesis
    using assms(2) xs
    by (simp add: authStateChanged_def run r s1 render_def)
qed

theorem unknown_role_renders_empty_navigator_witness:
  "fst (getUserRole aliceSession (uid alice) 3 (visibleFrom 0 (profile ''alice@example.com'' ''Alice'' (Some ''manager''))))
     = Inr ''manager'' \<and>
   ''manager'' \<notin> {''client'', ''admin''} \<and>
   (let (s', n') = authStateChanged (aliceSession, initialNavigator) (Some alice)
                     (visibleFrom 0 (profile ''alice@example.com'' ''Alice'' (Some ''manager''))) (Inr ()) in
      nav_user n' = Some alice \<and> userRole n' = Some ''manager'' \<and> render n' = EmptyNavigator \<and>
      currentUser s' = Some alice)"
proof -
  have "getUserRole aliceSession (uid alice) 3 (visibleFrom 0 (profile ''alice@example.com'' ''Alice'' (Some ''manager'')))
      = (settle (visibleFrom 0 (profile ''alice@example.com'' ''Alice'' (Some ''manager'')) 0),
         aliceSession\<lparr>calls := calls aliceSession @ retry_trace (uid alice) 0\<rparr>)"
    by (rule getUserRole_after_missing) (simp_all add: alice_def visibleFrom_def)
  then have ok: "fst (getUserRole aliceSession (uid alice) 3
                   (visibleFrom 0 (profile ''alice@example.com'' ''Alice'' (Some ''manager'')))) = Inr ''manager''"
    by (simp add: settle_def visibleFrom_def profile_def falsy_def)
  have role: "''manager'' \<notin> {''client'', ''admin''}" by simp
  from ok role
    unknown_role_renders_empty_navigator [OF ok role, of initialNavigator "Inr ()"]
  show ?thesis
    by (simp add: split_def Let_def aliceSession_def)
qed

lemma role_failure_clears_when_signOut_resolves:
  assumes "fst (getUserRole s (uid au) 3 reads) = Inl err"
  shows "(let (s', n') = authStateChanged (s, n) (Some au) reads (Inr ()) in
            nav_user n' = None \<and> userRole n' = None \<and> nav_error n' = Some (message err) \<and>
            render n' = AuthScreens \<and> currentUser s' = None)"
proof -
  obtain r s1 where run: "getUserRole s (uid au) 3 reads = (r, s1)"
    by (cases "getUserRole s (uid au) 3 reads")
  with assms have r: "r = Inl err" by simp
  show ?thesis
    by (simp add: authStateChanged_def run r signOut_def issue_def Let_def render_def)
qed

lemma authStateChanged_user_has_role:
  assumes "nav_user n = None \<or> userRole n \<noteq> None"
  shows "nav_user (snd (authStateChanged (s, n) authUser reads signedOut)) = None \<or>
         userRole (snd (authStateChanged (s, n) authUser reads signedOut)) \<noteq> None"
  using assms
  by (simp add: authStateChanged_def signOut_def Let_def
      split: option.split prod.split sum.split)

lemma run_user_has_role:
  assumes "nav_user (snd st) = None \<or> userRole (snd st) \<noteq> None"
  shows "nav_user (snd (run st evs)) = None \<or> userRole (snd (run st evs)) \<noteq> None"
  using assms
proof (induction evs arbitrary: st)
  case Nil
  then show ?case by (simp add: run_def)
next
  case (Cons ev evs)
  obtain authUser reads signedOut where ev: "ev = (authUser, reads, signedOut)"
    by (cases ev)
  have "nav_user (snd (notify st ev)) = None \<or> userRole (snd (notify st ev)) \<noteq> None"
    using Cons.prems
      authStateChanged_user_has_role [of "snd st" "(fst st)\<lparr>currentUser := authUser\<rparr>" authUser reads signedOut]
    by (simp add: notify_def ev)
  then have "nav_user (snd (run (notify st ev) evs)) = None \<or>
             userRole (snd (run (notify st ev) evs)) \<noteq> None"
    by (rule Cons.IH)
  then show ?case by (simp add: run_def)
qed

text \<open>
  C7, at the run \<open>roleFailureRun\<close>: the role of bob fails to resolve (his profile is never
  found), the sign-out that the \<^verbatim>\<open>catch\<close> block awaits is rejected, and the two setters
  behind it are skipped. The navigator is not cleared: it still holds alice with the role
  \<^verbatim>\<open>client\<close> and renders the client tabs, while the session is bob's.
\<close>

theorem role_failure_with_failed_signOut_keeps_user:
  "(let (s', n') = run (emptyBackend, initialNavigator) roleFailureRun in
      fst (getUserRole (emptyBackend\<lparr>currentUser := Some bob\<rparr>) (uid bob) 3 (\<lambda>i. Inr None))
        = Inl (new_Error ''User profile not found'') \<and>
      nav_user n' = Some alice \<and> userRole n' = Some ''client'' \<and>
      nav_error n' = Some ''User profile not found'' \<and> loading n' = False \<and>
      render n' = ClientApp \<and> currentUser s' = Some bob)"
proof -
  define s0 where "s0 = emptyBackend\<lparr>currentUser := Some alice\<rparr>"
  define pa where "pa = profile ''alice@example.com'' ''Alice'' (Some ''client'')"
  have a: "getUserRole s0 (uid alice) 3 (visibleFrom 0 pa) =
             (Inr ''client'', s0\<lparr>calls := calls s0 @ retry_trace (uid alice) 0\<rparr>)"
    using getUserRole_after_missing [of "uid alice" 0 "visibleFrom 0 pa" 3 s0]
    by (simp add: alice_def visibleFrom_def settle_def pa_def profile_def falsy_def)
  have b: "getUserRole s (uid bob) 3 (\<lambda>i. Inr None) =
             (Inl (new_Error ''User profile not found''), s\<lparr>calls := calls s @ retry_trace (uid bob) 3\<rparr>)"
    for s
    using getUserRole_after_missing [of "uid bob" 3 "\<lambda>i. Inr None" 3 s]
    by (simp add: bob_def settle_def)
  define n1 where "n1 = \<lparr>nav_user = Some alice, userRole = Some ''client'', nav_error = None,
                          loading = False\<rparr>"
  have st1: "notify (emptyBackend, initialNavigator) (Some alice, visibleFrom 0 pa, Inr ()) =
               (s0\<lparr>calls := calls s0 @ retry_trace (uid alice) 0\<rparr>, n1)"
    by (simp add: notify_def authStateChanged_def a [unfolded s0_def] s0_def n1_def
        initialNavigator_def)
  have st2: "snd (notify (s, n1) (Some bob, (\<lambda>i. Inr None), Inl e)) =
               n1\<lparr>nav_error := Some ''User profile not found''\<rparr> \<and>
             currentUser (fst (notify (s, n1) (Some bob, (\<lambda>i. Inr None), Inl e))) = Some bob"
    for s e
    by (simp add: notify_def authStateChanged_def b signOut_def issue_def Let_def n1_def)
  show ?thesis
    unfolding run_def roleFailureRun_def
    using st2 [of "s0\<lparr>calls := calls s0 @ retry_trace (uid alice) 0\<rparr>"
        "serviceError ''auth/network-request-failed'' ''A network error has occurred''"]
    by (simp add: st1 [unfolded pa_def] b split_def n1_def render_def)
qed

end
